theory Spec2Isabelle
  imports Complex_Main
begin

section \<open>Python strings\<close>

text \<open>
  A Python \<open>str\<close> is a sequence of Unicode code points, and \<open>len\<close>, slicing and
  \<open>strip\<close> count code points. A string is therefore a list of code points
  (\<open>nat\<close>); \<open>pystr_of\<close> reads an ASCII literal as such a list.
\<close>

type_synonym pystr = "nat list"

definition pystr_of :: "string \<Rightarrow> pystr" where
  "pystr_of s = map of_char s"

text \<open>
  \<open>str.isspace\<close> on one code point, which is what \<open>str.strip()\<close> with no argument
  removes: the code points of bidirectional type WS, B or S and of category Zs.
\<close>

definition py_isspace :: "nat \<Rightarrow> bool" where
  "py_isspace c \<longleftrightarrow>
     (9 \<le> c \<and> c \<le> 13) \<or> (28 \<le> c \<and> c \<le> 32) \<or> c = 133 \<or> c = 160 \<or> c = 5760 \<or>
     (8192 \<le> c \<and> c \<le> 8202) \<or> c = 8232 \<or> c = 8233 \<or> c = 8239 \<or> c = 8287 \<or> c = 12288"

definition lstrip :: "pystr \<Rightarrow> pystr" where
  "lstrip s = dropWhile py_isspace s"

definition rstrip :: "pystr \<Rightarrow> pystr" where
  "rstrip s = rev (dropWhile py_isspace (rev s))"

definition strip :: "pystr \<Rightarrow> pystr" where
  "strip s = rstrip (lstrip s)"

text \<open>\<open>s.startswith(p)\<close>.\<close>

fun startswith :: "pystr \<Rightarrow> pystr \<Rightarrow> bool" where
  "startswith s [] = True"
| "startswith [] (p # ps) = False"
| "startswith (c # cs) (p # ps) = (c = p \<and> startswith cs ps)"

text \<open>\<open>sub in s\<close>: \<open>sub\<close> occurs in \<open>s\<close> as a contiguous substring.\<close>

fun contains :: "pystr \<Rightarrow> pystr \<Rightarrow> bool" where
  "contains sub [] = (sub = [])"
| "contains sub (c # cs) = (startswith (c # cs) sub \<or> contains sub cs)"

text \<open>
  \<open>s.split(sep)\<close> for a separator of one character: the pieces between the
  separators, the empty ones included, so the result is never empty.
\<close>

fun split_on :: "nat \<Rightarrow> pystr \<Rightarrow> pystr list" where
  "split_on sep [] = [[]]"
| "split_on sep (c # cs) =
     (if c = sep then [] # split_on sep cs
      else (case split_on sep cs of
              [] \<Rightarrow> [[c]]
            | piece # pieces \<Rightarrow> (c # piece) # pieces))"

text \<open>\<open>sep.join(pieces)\<close> for a separator of one character.\<close>

fun join_with :: "nat \<Rightarrow> pystr list \<Rightarrow> pystr" where
  "join_with sep [] = []"
| "join_with sep [piece] = piece"
| "join_with sep (piece # pieces) = piece @ sep # join_with sep pieces"

section \<open>textwrap.dedent\<close>

text \<open>
  The standard library's \<open>dedent\<close> (CPython 3.8 to 3.13), line by line. Its regular
  expressions work in multi-line mode and never match a newline, so each acts on the
  lines of \<open>text.split("\n")\<close> one at a time:
  \<^item> \<^verbatim>\<open>^[ \t]+$\<close> replaced by the empty string blanks every line made of spaces and
    tabs only;
  \<^item> \<^verbatim>\<open>(^[ \t]*)(?:[^ \t\n])\<close> collects, for every line with a character other than
    space and tab, its leading run of spaces and tabs;
  \<^item> the margin is folded over these indents;
  \<^item> a non-empty margin is removed from the start of every line that starts with it.
\<close>

definition is_blank :: "nat \<Rightarrow> bool" where
  "is_blank c \<longleftrightarrow> c = 32 \<or> c = 9"

definition blank_line :: "pystr \<Rightarrow> pystr" where
  "blank_line line = (if line \<noteq> [] \<and> list_all is_blank line then [] else line)"

definition indents_of :: "pystr list \<Rightarrow> pystr list" where
  "indents_of lns = map (takeWhile is_blank) (filter (\<lambda>line. dropWhile is_blank line \<noteq> []) lns)"

text \<open>
  The innermost loop of \<open>dedent\<close>: cut the margin at the first position where it
  differs from the indent; when the shorter of the two ends first, the margin stays.
\<close>

fun cut_margin :: "pystr \<Rightarrow> pystr \<Rightarrow> pystr" where
  "cut_margin [] ys = []"
| "cut_margin (x # xs) [] = x # xs"
| "cut_margin (x # xs) (y # ys) = (if x \<noteq> y then [] else x # cut_margin xs ys)"

fun margin_step :: "pystr option \<Rightarrow> pystr \<Rightarrow> pystr option" where
  "margin_step None indent = Some indent"
| "margin_step (Some margin) indent =
     (if startswith indent margin then Some margin
      else if startswith margin indent then Some indent
      else Some (cut_margin margin indent))"

definition remove_margin :: "pystr \<Rightarrow> pystr \<Rightarrow> pystr" where
  "remove_margin margin line = (if startswith line margin then drop (length margin) line else line)"

definition dedent :: "pystr \<Rightarrow> pystr" where
  "dedent s =
     (let lns = map blank_line (split_on 10 s) in
      case foldl margin_step None (indents_of lns) of
        None \<Rightarrow> join_with 10 lns
      | Some margin \<Rightarrow>
          if margin \<noteq> [] then join_with 10 (map (remove_margin margin) lns)
          else join_with 10 lns)"

section \<open>Exceptions\<close>

text \<open>
  The exception classes that reach the functions below. \<open>SyntaxError\<close> stands for the
  class with its subclasses, which is what \<^verbatim>\<open>except SyntaxError\<close> catches.
\<close>

datatype py_exception =
  SyntaxError | UnicodeEncodeError | RecursionError | MemoryError
  | FileNotFoundError | IsADirectoryError | PermissionError | UnicodeDecodeError

section \<open>The heuristic rewriter\<close>

text \<open>
  \<open>compile(source, "<expr>", "eval")\<close> first encodes the source as UTF-8, which raises
  \<open>UnicodeEncodeError\<close> on a surrogate code point (U+D800 to U+DFFF), and then parses
  and compiles it. The grammar is not part of this program: \<open>parse\<close> stands for the
  interpreter's answer on an encodable source, \<open>None\<close> when it compiles and \<open>Some e\<close>
  when it raises \<open>e\<close> (\<open>SyntaxError\<close> for a source that is no expression,
  \<open>RecursionError\<close> or \<open>MemoryError\<close> for one too deep for the compiler).
\<close>

definition is_surrogate :: "nat \<Rightarrow> bool" where
  "is_surrogate c \<longleftrightarrow> 55296 \<le> c \<and> c \<le> 57343"

definition compile_eval :: "(pystr \<Rightarrow> py_exception option) \<Rightarrow> pystr \<Rightarrow> py_exception option" where
  "compile_eval parse src =
     (if list_ex is_surrogate src then Some UnicodeEncodeError else parse src)"

text \<open>
  The logical lines of a snippet: \<^verbatim>\<open>code.replace(";", "\n")\<close>, split at newlines, each
  piece stripped, the empty ones dropped.
\<close>

definition logical_lines :: "pystr \<Rightarrow> pystr list" where
  "logical_lines code =
     (let code_nl = map (\<lambda>c. if c = 59 then 10 else c) code
      in map strip (filter (\<lambda>line. strip line \<noteq> []) (split_on 10 code_nl)))"

definition maybe_wrap_print ::
  "(pystr \<Rightarrow> py_exception option) \<Rightarrow> pystr \<Rightarrow> py_exception + pystr" where
  "maybe_wrap_print parse code =
     (if contains (pystr_of ''print('') code then Inr code
      else let lns = logical_lines code in
        if lns = [] then Inr code
        else let lst = last lns in
          if 61 \<in> set lst then Inr code
          else (case compile_eval parse lst of
                  Some e \<Rightarrow> if e = SyntaxError then Inr code else Inl e
                | None \<Rightarrow>
                    Inr (rstrip (dedent code) @ 10 # pystr_of ''print('' @ lst @ pystr_of '')'')))"

section \<open>The snippet runner\<close>

text \<open>
  \<open>_run_snippet\<close> touches the host three times, and what the host answers is not this
  program's doing. Each answer is a function of the temporary file's content,
  \<open>dedent(code)\<close>, and the last two of the timeout as well:
  \<^item> \<open>tmp_write\<close>: creating the temporary file and writing the snippet into it, \<open>None\<close>
    when it is done and \<open>Some e\<close> when it raises \<open>e\<close> (\<open>UnicodeEncodeError\<close> for text the
    file's encoding cannot hold). This happens before the \<^verbatim>\<open>try\<close>.
  \<^item> \<open>subprocess_run\<close>: the call \<open>subprocess.run(["python3", tmp_path],
    capture_output=True, text=True, timeout=timeout, check=False)\<close>.
    \<open>Completed out err rc\<close>: the child ended in time with this decoded output and this
    exit status. \<open>TimeoutExpired out err\<close>: the deadline passed; the child was killed
    and the exception carries what it had written so far. \<open>Raised e\<close>: any other
    exception of the call (\<open>FileNotFoundError\<close> when there is no \<open>python3\<close> to launch,
    \<open>UnicodeDecodeError\<close> on output that is not text).
  \<^item> \<open>os_unlink\<close>: the \<open>os.unlink(tmp_path)\<close> of the \<^verbatim>\<open>finally\<close> block, \<open>None\<close> when the
    file is removed and \<open>Some e\<close> when it raises \<open>e\<close> (\<open>FileNotFoundError\<close> when the file
    is gone, \<open>IsADirectoryError\<close> when the child has put a directory in its place).
\<close>

datatype proc_outcome =
  Completed pystr pystr int
  | TimeoutExpired pystr pystr
  | Raised py_exception

record host =
  tmp_write :: "pystr \<Rightarrow> py_exception option"
  subprocess_run :: "pystr \<Rightarrow> int \<Rightarrow> proc_outcome"
  os_unlink :: "pystr \<Rightarrow> int \<Rightarrow> py_exception option"

text \<open>
  The \<^verbatim>\<open>try\<close> body returns a pair or raises; only \<open>TimeoutExpired\<close> has a handler. The
  \<^verbatim>\<open>finally\<close> block runs after either: it passes over \<open>FileNotFoundError\<close>, and any
  other exception of the unlink takes the place of the body's pair or exception.
\<close>

definition run_snippet :: "host \<Rightarrow> pystr \<Rightarrow> int \<Rightarrow> py_exception + pystr \<times> pystr" where
  "run_snippet h code timeout =
     (case tmp_write h (dedent code) of
        Some e \<Rightarrow> Inl e
      | None \<Rightarrow>
          (let body =
             (case subprocess_run h (dedent code) timeout of
                Completed out err rc \<Rightarrow> Inr (strip out, strip err)
              | TimeoutExpired out err \<Rightarrow> Inr ([], pystr_of ''Execution timed out'')
              | Raised e \<Rightarrow> Inl e)
           in case os_unlink h (dedent code) timeout of
                None \<Rightarrow> body
              | Some e \<Rightarrow> if e = FileNotFoundError then body else Inl e))"

section \<open>json.dumps\<close>

text \<open>
  \<open>json.dumps\<close> with its defaults (\<open>ensure_ascii=True\<close>, separators \<^verbatim>\<open>", "\<close> and
  \<^verbatim>\<open>": "\<close>) on a dictionary of two strings. Inside a string, the quote, the backslash
  and the control characters with a short name get their two-character escape; every
  other character outside the range from space to tilde is written
  \<^verbatim>\<open>\uXXXX\<close> with four lower-case hexadecimal digits, as a surrogate pair beyond
  U+FFFF.
\<close>

definition hex_digit :: "nat \<Rightarrow> nat" where
  "hex_digit d = (if d < 10 then 48 + d else 87 + d)"

definition u_escape :: "nat \<Rightarrow> pystr" where
  "u_escape n =
     [92, 117, hex_digit (n div 4096 mod 16), hex_digit (n div 256 mod 16),
      hex_digit (n div 16 mod 16), hex_digit (n mod 16)]"

definition json_escape_char :: "nat \<Rightarrow> pystr" where
  "json_escape_char c =
     (if c = 92 then [92, 92]
      else if c = 34 then [92, 34]
      else if c = 8 then [92, 98]
      else if c = 12 then [92, 102]
      else if c = 10 then [92, 110]
      else if c = 13 then [92, 114]
      else if c = 9 then [92, 116]
      else if 32 \<le> c \<and> c \<le> 126 then [c]
      else if c < 65536 then u_escape c
      else u_escape (55296 + (c - 65536) div 1024 mod 1024)
           @ u_escape (56320 + (c - 65536) mod 1024))"

definition json_string :: "pystr \<Rightarrow> pystr" where
  "json_string s = 34 # concat (map json_escape_char s) @ [34]"

definition json_dumps_output :: "pystr \<Rightarrow> pystr \<Rightarrow> pystr" where
  "json_dumps_output out err =
     pystr_of ''{\"stdout\": '' @ json_string out
     @ pystr_of '', \"stderr\": '' @ json_string err @ pystr_of ''}''"

section \<open>The tool\<close>

text \<open>
  The fields \<open>_timeout\<close> and \<open>_state\<close> of a \<open>PythonInterpreterTool\<close>. A session's
  record is a dictionary, as are the parameters of a call; their values are taken to
  be strings, on which \<open>str\<close> is the identity.
\<close>

type_synonym pydict = "pystr \<rightharpoonup> pystr"

record tool =
  self_timeout :: int
  self_state :: "pystr \<rightharpoonup> pydict"

text \<open>
  \<open>create\<close>: \<^verbatim>\<open>instance_id or str(uuid4())\<close> takes the given id unless it is \<open>None\<close> or
  empty; \<open>uuid4\<close> is the string the generator gives at this call.
\<close>

definition create :: "pystr \<Rightarrow> tool \<Rightarrow> pystr option \<Rightarrow> pystr \<times> tool" where
  "create uuid4 self instance_id =
     (let iid = (case instance_id of
                   None \<Rightarrow> uuid4
                 | Some s \<Rightarrow> if s \<noteq> [] then s else uuid4)
      in (iid, self\<lparr>self_state := (self_state self)(iid \<mapsto> Map.empty)\<rparr>))"

text \<open>\<^verbatim>\<open>str(parameters.get("code", ""))\<close>.\<close>

definition code_param :: "pydict \<Rightarrow> pystr" where
  "code_param parameters =
     (case parameters (pystr_of ''code'') of None \<Rightarrow> [] | Some v \<Rightarrow> v)"

definition envelope :: "pystr \<Rightarrow> pystr \<Rightarrow> pystr" where
  "envelope out err =
     pystr_of ''<tool_output>'' @ json_dumps_output out err @ pystr_of ''</tool_output>''"

text \<open>
  \<open>execute\<close> returns the text, the reward and the empty metadata, or raises; the tool
  comes back with it, since the method is given \<open>self\<close>.
\<close>

definition execute ::
  "(pystr \<Rightarrow> py_exception option) \<Rightarrow> host \<Rightarrow> tool \<Rightarrow> pystr \<Rightarrow> pydict
     \<Rightarrow> (py_exception + pystr \<times> real \<times> pydict) \<times> tool" where
  "execute parse h self instance_id parameters =
     (case maybe_wrap_print parse (code_param parameters) of
        Inl e \<Rightarrow> (Inl e, self)
      | Inr wrapped \<Rightarrow>
          (case run_snippet h wrapped (self_timeout self) of
             Inl e \<Rightarrow> (Inl e, self)
           | Inr (out, err) \<Rightarrow>
               (Inr (take 3000 (envelope out err),
                     (if err \<noteq> [] then - (1 / 10) else 0),
                     Map.empty),
                self)))"

text \<open>\<open>release\<close>: \<^verbatim>\<open>self._state.pop(instance_id, None)\<close>.\<close>

definition release :: "tool \<Rightarrow> pystr \<Rightarrow> tool" where
  "release self instance_id = self\<lparr>self_state := (self_state self)(instance_id := None)\<rparr>"

section \<open>Sample hosts\<close>

text \<open>
  A host on which the file is written and removed without fault and the child ends
  with the given outcome.
\<close>

definition quiet_host :: "proc_outcome \<Rightarrow> host" where
  "quiet_host r =
     \<lparr>tmp_write = (\<lambda>file. None), subprocess_run = (\<lambda>file t. r), os_unlink = (\<lambda>file t. None)\<rparr>"

text \<open>A host with no \<open>python3\<close> on its path: the launch raises \<open>FileNotFoundError\<close>.\<close>

definition no_python3 :: host where
  "no_python3 =
     \<lparr>tmp_write = (\<lambda>file. None), subprocess_run = (\<lambda>file t. Raised FileNotFoundError),
      os_unlink = (\<lambda>file t. None)\<rparr>"

text \<open>
  A host on which the child runs past the deadline after putting a directory where
  its own file was: \<open>os.unlink\<close> on a directory raises \<open>IsADirectoryError\<close>.
\<close>

definition dir_swap_host :: host where
  "dir_swap_host =
     \<lparr>tmp_write = (\<lambda>file. None), subprocess_run = (\<lambda>file t. TimeoutExpired [] []),
      os_unlink = (\<lambda>file t. Some IsADirectoryError)\<rparr>"

text \<open>
  A grammar answer for sources that never reach the grammar: every source is refused
  with \<open>SyntaxError\<close>, the one exception the rewriter handles.
\<close>

definition reject_all :: "pystr \<Rightarrow> py_exception option" where
  "reject_all src = Some SyntaxError"

section \<open>Evaluation\<close>

lemmas eval_defs =
  pystr_of_def dedent_def blank_line_def indents_of_def is_blank_def remove_margin_def
  strip_def lstrip_def rstrip_def py_isspace_def logical_lines_def maybe_wrap_print_def
  compile_eval_def is_surrogate_def run_snippet_def json_dumps_output_def json_string_def
  json_escape_char_def u_escape_def hex_digit_def envelope_def execute_def code_param_def
  quiet_host_def no_python3_def dir_swap_host_def

section \<open>Splitting into lines\<close>

lemma split_on_nonempty: "split_on sep s \<noteq> []"
  by (induction s) (auto split: list.splits)

lemma split_on_no_sep: "piece \<in> set (split_on sep s) \<Longrightarrow> sep \<notin> set piece"
proof (induction s arbitrary: piece)
  case Nil
  then show ?case by simp
next
  case (Cons c cs)
  show ?case
  proof (cases "c = sep")
    case True
    with Cons show ?thesis by auto
  next
    case False
    obtain p ps where ps: "split_on sep cs = p # ps"
      using split_on_nonempty [of sep cs] by (cases "split_on sep cs") auto
    with False Cons.prems have "piece = c # p \<or> piece \<in> set ps" by simp
    then show ?thesis
    proof
      assume "piece = c # p"
      moreover have "sep \<notin> set p" using Cons.IH [of p] ps by simp
      ultimately show ?thesis using False by simp
    next
      assume "piece \<in> set ps"
      then show ?thesis using Cons.IH [of piece] ps by simp
    qed
  qed
qed

lemma split_on_whole: "sep \<notin> set s \<Longrightarrow> split_on sep s = [s]"
  by (induction s) auto

lemma split_on_append:
  "split_on sep (xs @ sep # ys) = split_on sep xs @ split_on sep ys"
proof (induction xs)
  case Nil
  show ?case by simp
next
  case (Cons c cs)
  obtain p ps where ps: "split_on sep cs = p # ps"
    using split_on_nonempty [of sep cs] by (cases "split_on sep cs") auto
  with Cons show ?case by simp
qed

lemma last_line_of_append:
  "sep \<notin> set ys \<Longrightarrow> last (split_on sep (xs @ sep # ys)) = ys"
  by (simp add: split_on_append split_on_whole)

lemma set_strip: "set (strip s) \<subseteq> set s"
proof -
  have "set (rev (dropWhile py_isspace (rev (dropWhile py_isspace s)))) \<subseteq> set (dropWhile py_isspace s)"
    using set_dropWhileD [of _ py_isspace "rev (dropWhile py_isspace s)"] by auto
  moreover have "set (dropWhile py_isspace s) \<subseteq> set s"
    using set_dropWhileD [of _ py_isspace s] by auto
  ultimately show ?thesis by (simp add: strip_def lstrip_def rstrip_def)
qed

lemma logical_line_no_newline:
  assumes "line \<in> set (logical_lines code)"
  shows "10 \<notin> set line"
proof -
  from assms obtain piece where
    p: "piece \<in> set (split_on 10 (map (\<lambda>c. if c = 59 then 10 else c) code))" and l: "line = strip piece"
    by (auto simp: logical_lines_def)
  from p have "10 \<notin> set piece" by (rule split_on_no_sep)
  with l set_strip [of piece] show ?thesis by auto
qed

lemma print_call_no_newline:
  "10 \<notin> set line \<Longrightarrow> 10 \<notin> set (pystr_of ''print('' @ line @ pystr_of '')'')"
  by (simp add: pystr_of_def)

section \<open>Properties of the rewriter\<close>

text \<open>
  C5. A snippet without \<open>print(\<close>, with at least one logical line, whose last logical
  line has no \<open>=\<close> and compiles in \<open>eval\<close> mode, is rewritten to the dedented snippet
  without its trailing whitespace, followed by a newline and \<open>print(<last line>)\<close>.
  That call is the final line of the result, since a logical line holds no newline.
  The witness is the snippet \<open>1 + 1\<close>.
\<close>

theorem wrap_print_expression:
  assumes "\<not> contains (pystr_of ''print('') code"
    and "logical_lines code \<noteq> []"
    and "61 \<notin> set (last (logical_lines code))"
    and "compile_eval parse (last (logical_lines code)) = None"
  shows "maybe_wrap_print parse code
           = Inr (rstrip (dedent code) @ 10 # pystr_of ''print('' @ last (logical_lines code) @ pystr_of '')'')
         \<and> last (split_on 10 (rstrip (dedent code) @ 10 # pystr_of ''print('' @ last (logical_lines code) @ pystr_of '')''))
           = pystr_of ''print('' @ last (logical_lines code) @ pystr_of '')''"
proof
  show "maybe_wrap_print parse code
           = Inr (rstrip (dedent code) @ 10 # pystr_of ''print('' @ last (logical_lines code) @ pystr_of '')'')"
    using assms by (simp add: maybe_wrap_print_def Let_def)
next
  have "last (logical_lines code) \<in> set (logical_lines code)"
    using assms(2) by simp
  then have "10 \<notin> set (last (logical_lines code))"
    by (rule logical_line_no_newline)
  then have "10 \<notin> set (pystr_of ''print('' @ last (logical_lines code) @ pystr_of '')'')"
    by (rule print_call_no_newline)
  then show "last (split_on 10 (rstrip (dedent code) @ 10 # pystr_of ''print('' @ last (logical_lines code) @ pystr_of '')''))
           = pystr_of ''print('' @ last (logical_lines code) @ pystr_of '')''"
    by (rule last_line_of_append)
qed

theorem wrap_print_expression_witness:
  "\<not> contains (pystr_of ''print('') (pystr_of ''1 + 1'')
   \<and> logical_lines (pystr_of ''1 + 1'') = [pystr_of ''1 + 1'']
   \<and> compile_eval (\<lambda>src. None) (pystr_of ''1 + 1'') = None
   \<and> maybe_wrap_print (\<lambda>src. None) (pystr_of ''1 + 1'') = Inr (pystr_of ''1 + 1'' @ 10 # pystr_of ''print(1 + 1)'')
   \<and> last (split_on 10 (pystr_of ''1 + 1'' @ 10 # pystr_of ''print(1 + 1)'')) = pystr_of ''print(1 + 1)''"
  using wrap_print_expression [of "pystr_of ''1 + 1''" "\<lambda>src. None"]
  by (simp add: eval_defs)

text \<open>
  C6. A snippet whose last logical line contains \<open>=\<close> comes back unchanged, whatever
  the grammar says of that line. In the witness the \<open>=\<close> stands in a keyword argument
  of an expression that compiles.
\<close>

theorem assignment_unchanged:
  "logical_lines code \<noteq> [] \<and> 61 \<in> set (last (logical_lines code))
     \<longrightarrow> maybe_wrap_print parse code = Inr code"
  by (simp add: maybe_wrap_print_def Let_def)

theorem assignment_unchanged_witness:
  "logical_lines (pystr_of ''x = 1; dict(a=x)'') = [pystr_of ''x = 1'', pystr_of ''dict(a=x)'']
   \<and> 61 \<in> set (pystr_of ''dict(a=x)'')
   \<and> maybe_wrap_print (\<lambda>src. None) (pystr_of ''x = 1; dict(a=x)'') = Inr (pystr_of ''x = 1; dict(a=x)'')"
  using assignment_unchanged [of "pystr_of ''x = 1; dict(a=x)''" "\<lambda>src. None"]
  by (simp add: eval_defs)

text \<open>
  C7, as the code has it. The rewriter is a function of its input and of the
  interpreter's answer, defined on every input. It returns the snippet unchanged, or
  the dedented snippet with the print line, unless \<open>compile\<close> raises something other
  than \<open>SyntaxError\<close> on the last logical line: that exception has no handler and
  leaves the rewriter. The second part says exactly when this happens.
\<close>

theorem maybe_wrap_print_cases:
  "(maybe_wrap_print parse code = Inr code
    \<or> maybe_wrap_print parse code
        = Inr (rstrip (dedent code) @ 10 # pystr_of ''print('' @ last (logical_lines code) @ pystr_of '')'')
    \<or> (\<exists>e. e \<noteq> SyntaxError \<and> compile_eval parse (last (logical_lines code)) = Some e
           \<and> maybe_wrap_print parse code = Inl e))
   \<and> ((\<exists>e. maybe_wrap_print parse code = Inl e) \<longleftrightarrow>
        (\<not> contains (pystr_of ''print('') code \<and> logical_lines code \<noteq> []
         \<and> 61 \<notin> set (last (logical_lines code))
         \<and> (\<exists>e. e \<noteq> SyntaxError \<and> compile_eval parse (last (logical_lines code)) = Some e)))"
  by (auto simp: maybe_wrap_print_def Let_def split: option.splits)

theorem maybe_wrap_print_cases_witness:
  "maybe_wrap_print (\<lambda>src. None) (pystr_of ''  x = 2; x * 3  '') = Inr (pystr_of ''x = 2; x * 3'' @ 10 # pystr_of ''print(x * 3)'')
   \<and> maybe_wrap_print (\<lambda>src. Some SyntaxError) (pystr_of ''import os'') = Inr (pystr_of ''import os'')
   \<and> maybe_wrap_print (\<lambda>src. None) [39, 56832, 39] = Inl UnicodeEncodeError"
  using maybe_wrap_print_cases [of "\<lambda>src. None" "pystr_of ''  x = 2; x * 3  ''"]
        maybe_wrap_print_cases [of "\<lambda>src. Some SyntaxError" "pystr_of ''import os''"]
        maybe_wrap_print_cases [of "\<lambda>src. None" "[39, 56832, 39]"]
  by (simp add: eval_defs)

text \<open>
  C7 as stated fails on a snippet made of one lone surrogate (the string
  \<^verbatim>\<open>"\ud800"\<close>, which \<open>json.loads\<close> produces from a tool call): it has no \<open>print(\<close>
  and no \<open>=\<close>, so it reaches \<open>compile\<close>, whose \<open>UnicodeEncodeError\<close> is no
  \<open>SyntaxError\<close>.
\<close>

theorem maybe_wrap_print_raises:
  "maybe_wrap_print reject_all [55296] = Inl UnicodeEncodeError"
  by (simp add: eval_defs)

section \<open>Properties of the runner\<close>

text \<open>
  C3, as the code has it. \<open>run_snippet\<close> returns a pair when the file was written, the
  child ended in time (the trimmed output) or timed out (the fixed pair), and the
  unlink removed the file or found it gone. Every other exception is raised to the
  caller, not turned into stderr text: one of the write, one of the launch, and one
  of the unlink, which also takes the place of a pair. \<open>execute\<close> raises what
  \<open>run_snippet\<close> raises.
\<close>

theorem run_snippet_outcomes:
  "(tmp_write h (dedent code) = Some e \<longrightarrow> run_snippet h code t = Inl e)
   \<and> (tmp_write h (dedent code) = None \<and> os_unlink h (dedent code) t = Some e
        \<and> e \<noteq> FileNotFoundError \<longrightarrow> run_snippet h code t = Inl e)
   \<and> (tmp_write h (dedent code) = None
        \<and> (os_unlink h (dedent code) t = None \<or> os_unlink h (dedent code) t = Some FileNotFoundError)
      \<longrightarrow> (subprocess_run h (dedent code) t = Completed out err rc \<longrightarrow>
             run_snippet h code t = Inr (strip out, strip err))
        \<and> (subprocess_run h (dedent code) t = TimeoutExpired out err \<longrightarrow>
             run_snippet h code t = Inr ([], pystr_of ''Execution timed out''))
        \<and> (subprocess_run h (dedent code) t = Raised e \<longrightarrow> run_snippet h code t = Inl e))
   \<and> (maybe_wrap_print parse (code_param params) = Inr w
        \<and> run_snippet h w (self_timeout self) = Inl e
      \<longrightarrow> execute parse h self iid params = (Inl e, self))"
  by (auto simp: run_snippet_def execute_def Let_def)

theorem run_snippet_outcomes_witness:
  "run_snippet (quiet_host (Completed (pystr_of ''2'' @ [10]) [] 0)) (pystr_of ''print(1 + 1)'') 5
     = Inr (pystr_of ''2'', [])
   \<and> run_snippet \<lparr>tmp_write = (\<lambda>file. None),
                   subprocess_run = (\<lambda>file t. TimeoutExpired (pystr_of ''tick'') []),
                   os_unlink = (\<lambda>file t. Some FileNotFoundError)\<rparr> (pystr_of ''while True: pass'') 5
     = Inr ([], pystr_of ''Execution timed out'')
   \<and> run_snippet (quiet_host (Raised UnicodeDecodeError)) (pystr_of ''print(1 + 1)'') 5
     = Inl UnicodeDecodeError
   \<and> run_snippet \<lparr>tmp_write = (\<lambda>file. None),
                   subprocess_run = (\<lambda>file t. Completed (pystr_of ''2'') [] 0),
                   os_unlink = (\<lambda>file t. Some PermissionError)\<rparr> (pystr_of ''print(1 + 1)'') 5
     = Inl PermissionError
   \<and> run_snippet \<lparr>tmp_write = (\<lambda>file. Some UnicodeEncodeError),
                   subprocess_run = (\<lambda>file t. Completed (pystr_of ''2'') [] 0),
                   os_unlink = (\<lambda>file t. None)\<rparr> [112, 114, 105, 110, 116, 40, 39, 56832, 39, 41] 5
     = Inl UnicodeEncodeError
   \<and> execute (\<lambda>src. None) (quiet_host (Raised UnicodeDecodeError))
       \<lparr>self_timeout = 5, self_state = [[97] \<mapsto> Map.empty]\<rparr> [97] [pystr_of ''code'' \<mapsto> pystr_of ''print(1 + 1)'']
     = (Inl UnicodeDecodeError, \<lparr>self_timeout = 5, self_state = [[97] \<mapsto> Map.empty]\<rparr>)"
  using run_snippet_outcomes [where h = "quiet_host (Completed (pystr_of ''2'' @ [10]) [] 0)"
          and code = "pystr_of ''print(1 + 1)''" and t = 5 and out = "pystr_of ''2'' @ [10]"
          and err = "[]" and rc = 0]
        run_snippet_outcomes [where h = "\<lparr>tmp_write = (\<lambda>file. None),
                   subprocess_run = (\<lambda>file t. TimeoutExpired (pystr_of ''tick'') []),
                   os_unlink = (\<lambda>file t. Some FileNotFoundError)\<rparr>"
          and code = "pystr_of ''while True: pass''" and t = 5 and out = "pystr_of ''tick''" and err = "[]"]
        run_snippet_outcomes [where h = "quiet_host (Raised UnicodeDecodeError)"
          and code = "pystr_of ''print(1 + 1)''" and t = 5 and e = UnicodeDecodeError
          and parse = "\<lambda>src. None" and params = "[pystr_of ''code'' \<mapsto> pystr_of ''print(1 + 1)'']"
          and w = "pystr_of ''print(1 + 1)''" and self = "\<lparr>self_timeout = 5, self_state = [[97] \<mapsto> Map.empty]\<rparr>" and iid = "[97]"]
  by (simp add: eval_defs)

text \<open>
  C3 as stated fails on a host without the interpreter: the \<open>FileNotFoundError\<close> of
  the launch comes out of \<open>run_snippet\<close> as an exception.
\<close>

theorem run_snippet_raises:
  "run_snippet no_python3 (pystr_of ''1 + 1'') 5 = Inl FileNotFoundError"
  by (simp add: eval_defs)

text \<open>
  C4, as the code has it. When the file was written, the child does not end within
  the timeout, and the unlink removes the file or finds it gone, \<open>run_snippet\<close>
  returns the empty stdout and the stderr \<open>Execution timed out\<close>, whatever the child
  had written, and \<open>execute\<close> returns the envelope of that pair with the reward
  \<open>-0.1\<close>. When the unlink raises anything else, that exception is raised in place of
  the pair.
\<close>

theorem timeout_discards_output:
  "(tmp_write h (dedent code) = None
      \<and> subprocess_run h (dedent code) t = TimeoutExpired out err
      \<and> (os_unlink h (dedent code) t = None \<or> os_unlink h (dedent code) t = Some FileNotFoundError)
    \<longrightarrow> run_snippet h code t = Inr ([], pystr_of ''Execution timed out''))
   \<and> (maybe_wrap_print parse (code_param params) = Inr w
      \<and> tmp_write h (dedent w) = None
      \<and> subprocess_run h (dedent w) (self_timeout self) = TimeoutExpired out err
      \<and> (os_unlink h (dedent w) (self_timeout self) = None
          \<or> os_unlink h (dedent w) (self_timeout self) = Some FileNotFoundError)
    \<longrightarrow> execute parse h self iid params
        = (Inr (take 3000 (envelope [] (pystr_of ''Execution timed out'')), - (1 / 10), Map.empty), self))
   \<and> (tmp_write h (dedent code) = None
      \<and> subprocess_run h (dedent code) t = TimeoutExpired out err
      \<and> os_unlink h (dedent code) t = Some e \<and> e \<noteq> FileNotFoundError
    \<longrightarrow> run_snippet h code t = Inl e)"
  by (auto simp: execute_def run_snippet_def pystr_of_def Let_def)

theorem timeout_discards_output_witness:
  "run_snippet (quiet_host (TimeoutExpired (pystr_of ''tick'') (pystr_of ''tock''))) (pystr_of ''while True: pass'') 5
     = Inr ([], pystr_of ''Execution timed out'')
   \<and> execute (\<lambda>src. Some SyntaxError) (quiet_host (TimeoutExpired (pystr_of ''tick'') (pystr_of ''tock'')))
       \<lparr>self_timeout = 5, self_state = [[97] \<mapsto> Map.empty]\<rparr> [97] [pystr_of ''code'' \<mapsto> pystr_of ''while True: pass'']
     = (Inr (pystr_of ''<tool_output>{\"stdout\": \"\", \"stderr\": \"Execution timed out\"}</tool_output>'',
             - (1 / 10), Map.empty), \<lparr>self_timeout = 5, self_state = [[97] \<mapsto> Map.empty]\<rparr>)"
  using timeout_discards_output [where h = "quiet_host (TimeoutExpired (pystr_of ''tick'') (pystr_of ''tock''))"
          and code = "pystr_of ''while True: pass''" and t = 5 and out = "pystr_of ''tick''"
          and err = "pystr_of ''tock''" and parse = "\<lambda>src. Some SyntaxError"
          and params = "[pystr_of ''code'' \<mapsto> pystr_of ''while True: pass'']"
          and w = "pystr_of ''while True: pass''" and self = "\<lparr>self_timeout = 5, self_state = [[97] \<mapsto> Map.empty]\<rparr>" and iid = "[97]"]
  by (simp add: eval_defs)

text \<open>
  C4 as stated fails when the snippet puts a directory in the place of its own file
  and then sleeps past the deadline: the child times out, the unlink of the
  \<^verbatim>\<open>finally\<close> block raises \<open>IsADirectoryError\<close>, and that exception leaves
  \<open>run_snippet\<close> where the pair was to be returned.
\<close>

theorem timeout_unlink_raises:
  "subprocess_run dir_swap_host
       (dedent (pystr_of ''import os, sys, time; os.unlink(sys.argv[0]); os.mkdir(sys.argv[0]); time.sleep(60)'')) 5
     = TimeoutExpired [] []
   \<and> run_snippet dir_swap_host
       (pystr_of ''import os, sys, time; os.unlink(sys.argv[0]); os.mkdir(sys.argv[0]); time.sleep(60)'') 5
     = Inl IsADirectoryError"
  by (simp add: run_snippet_def dir_swap_host_def)

section \<open>Properties of execute\<close>

text \<open>
  C1. Whenever \<open>execute\<close> returns, its reward is \<open>0.0\<close> if the stderr that
  \<open>run_snippet\<close> returned is empty and \<open>-0.1\<close> otherwise. For a child that ended in
  time, with the file written before and removed (or gone) after, \<open>execute\<close> does
  return, and that stderr is the child's, trimmed. Neither stdout nor the exit status
  occurs in the reward. The witness has a run with exit status 1 and blank stderr
  (reward \<open>0.0\<close>) and one with exit status 0 and text on stderr (reward \<open>-0.1\<close>).
\<close>

theorem execute_reward:
  "(execute parse h self iid params = (Inr (txt, reward, meta), self') \<longrightarrow>
      (\<exists>w out err. maybe_wrap_print parse (code_param params) = Inr w
         \<and> run_snippet h w (self_timeout self) = Inr (out, err)
         \<and> reward = (if err = [] then 0 else - (1 / 10))))
   \<and> (maybe_wrap_print parse (code_param params) = Inr w
        \<and> tmp_write h (dedent w) = None
        \<and> subprocess_run h (dedent w) (self_timeout self) = Completed out err rc
        \<and> (os_unlink h (dedent w) (self_timeout self) = None
            \<or> os_unlink h (dedent w) (self_timeout self) = Some FileNotFoundError) \<longrightarrow>
      (\<exists>txt. execute parse h self iid params
         = (Inr (txt, (if strip err = [] then 0 else - (1 / 10)), Map.empty), self)))"
  by (auto simp: execute_def run_snippet_def Let_def split: sum.splits prod.splits)

theorem execute_reward_witness:
  "execute (\<lambda>src. None) (quiet_host (Completed (pystr_of ''2'' @ [10]) [] 0))
     \<lparr>self_timeout = 5, self_state = [[97] \<mapsto> Map.empty]\<rparr> [97] [pystr_of ''code'' \<mapsto> pystr_of ''1 + 1'']
   = (Inr (pystr_of ''<tool_output>{\"stdout\": \"2\", \"stderr\": \"\"}</tool_output>'', 0, Map.empty), \<lparr>self_timeout = 5, self_state = [[97] \<mapsto> Map.empty]\<rparr>)
   \<and> execute (\<lambda>src. Some SyntaxError) (quiet_host (Completed (pystr_of ''2'') (pystr_of '' '') 1))
     \<lparr>self_timeout = 5, self_state = [[97] \<mapsto> Map.empty]\<rparr> [97] [pystr_of ''code'' \<mapsto> pystr_of ''import sys; sys.exit(1)'']
   = (Inr (pystr_of ''<tool_output>{\"stdout\": \"2\", \"stderr\": \"\"}</tool_output>'', 0, Map.empty), \<lparr>self_timeout = 5, self_state = [[97] \<mapsto> Map.empty]\<rparr>)
   \<and> execute (\<lambda>src. Some SyntaxError) (quiet_host (Completed [] (pystr_of ''boom'' @ [10]) 0))
     \<lparr>self_timeout = 5, self_state = [[97] \<mapsto> Map.empty]\<rparr> [97] [pystr_of ''code'' \<mapsto> pystr_of ''raise ValueError'']
   = (Inr (pystr_of ''<tool_output>{\"stdout\": \"\", \"stderr\": \"boom\"}</tool_output>'', - (1 / 10), Map.empty), \<lparr>self_timeout = 5, self_state = [[97] \<mapsto> Map.empty]\<rparr>)"
  using execute_reward [where parse = "\<lambda>src. None" and h = "quiet_host (Completed (pystr_of ''2'' @ [10]) [] 0)"
          and self = "\<lparr>self_timeout = 5, self_state = [[97] \<mapsto> Map.empty]\<rparr>" and iid = "[97]" and params = "[pystr_of ''code'' \<mapsto> pystr_of ''1 + 1'']"
          and ?txt = "pystr_of ''<tool_output>{\"stdout\": \"2\", \"stderr\": \"\"}</tool_output>''"
          and reward = 0 and meta = Map.empty and self' = "\<lparr>self_timeout = 5, self_state = [[97] \<mapsto> Map.empty]\<rparr>"
          and w = "pystr_of ''1 + 1'' @ 10 # pystr_of ''print(1 + 1)''"
          and out = "pystr_of ''2'' @ [10]" and err = "[]" and rc = 0]
        execute_reward [where parse = "\<lambda>src. Some SyntaxError"
          and h = "quiet_host (Completed [] (pystr_of ''boom'' @ [10]) 0)"
          and self = "\<lparr>self_timeout = 5, self_state = [[97] \<mapsto> Map.empty]\<rparr>" and iid = "[97]" and params = "[pystr_of ''code'' \<mapsto> pystr_of ''raise ValueError'']"
          and w = "pystr_of ''raise ValueError''"
          and out = "[]" and err = "pystr_of ''boom'' @ [10]" and rc = 0]
  by (simp add: eval_defs)

text \<open>
  C2. Whenever \<open>execute\<close> returns, its text is the first 3000 characters of
  \<open><tool_output>\<close>, the JSON of stdout and stderr, and \<open></tool_output>\<close>, so it is never
  longer than 3000; and \<open>execute\<close> returns whenever the rewriter and the runner do. In
  the witness a stdout of 5000 characters is cut inside the JSON string.
\<close>

theorem execute_envelope:
  "(execute parse sp self iid params = (Inr (txt, reward, meta), self') \<longrightarrow>
      length txt \<le> 3000
      \<and> (\<exists>w out err. maybe_wrap_print parse (code_param params) = Inr w
         \<and> run_snippet sp w (self_timeout self) = Inr (out, err)
         \<and> txt = take 3000 (pystr_of ''<tool_output>'' @ json_dumps_output out err
                               @ pystr_of ''</tool_output>'')))
   \<and> (maybe_wrap_print parse (code_param params) = Inr w
        \<and> run_snippet sp w (self_timeout self) = Inr (out, err) \<longrightarrow>
      (\<exists>reward. execute parse sp self iid params
         = (Inr (take 3000 (pystr_of ''<tool_output>'' @ json_dumps_output out err
                               @ pystr_of ''</tool_output>''), reward, Map.empty), self)))"
  by (auto simp: execute_def envelope_def split: sum.splits prod.splits)

theorem execute_envelope_witness:
  "execute (\<lambda>src. None) (quiet_host (Completed (replicate 5000 97) [] 0))
     \<lparr>self_timeout = 5, self_state = [[97] \<mapsto> Map.empty]\<rparr> [97] [pystr_of ''code'' \<mapsto> pystr_of ''1 + 1'']
   = (Inr (pystr_of ''<tool_output>{\"stdout\": \"'' @ replicate 2975 97, 0, Map.empty), \<lparr>self_timeout = 5, self_state = [[97] \<mapsto> Map.empty]\<rparr>)
   \<and> length (pystr_of ''<tool_output>{\"stdout\": \"'' @ replicate 2975 97) = 3000
   \<and> execute (\<lambda>src. None) (quiet_host (Completed (pystr_of ''2'' @ [10]) [] 0))
     \<lparr>self_timeout = 5, self_state = [[97] \<mapsto> Map.empty]\<rparr> [97] [pystr_of ''code'' \<mapsto> pystr_of ''1 + 1'']
   = (Inr (pystr_of ''<tool_output>{\"stdout\": \"2\", \"stderr\": \"\"}</tool_output>'', 0, Map.empty), \<lparr>self_timeout = 5, self_state = [[97] \<mapsto> Map.empty]\<rparr>)"
  using execute_envelope [where parse = "\<lambda>src. None" and sp = "quiet_host (Completed (replicate 5000 97) [] 0)"
          and self = "\<lparr>self_timeout = 5, self_state = [[97] \<mapsto> Map.empty]\<rparr>" and iid = "[97]" and params = "[pystr_of ''code'' \<mapsto> pystr_of ''1 + 1'']"
          and ?txt = "pystr_of ''<tool_output>{\"stdout\": \"'' @ replicate 2975 97"
          and reward = 0 and meta = Map.empty and self' = "\<lparr>self_timeout = 5, self_state = [[97] \<mapsto> Map.empty]\<rparr>"
          and w = "pystr_of ''1 + 1'' @ 10 # pystr_of ''print(1 + 1)''"
          and out = "replicate 5000 97" and err = "[]"]
  by (simp add: eval_defs)

section \<open>Properties of the session registry\<close>

text \<open>
  C9. \<open>execute\<close> hands the tool back as it was, and its result depends neither on the
  id nor on the registry: an id that is not live is served like any other. In the
  witness the id \<open>ghost\<close> was never created.
\<close>

theorem execute_frame:
  "snd (execute parse sp self iid params) = self
   \<and> fst (execute parse sp self iid params) = fst (execute parse sp self iid' params)
   \<and> fst (execute parse sp (self\<lparr>self_state := registry\<rparr>) iid params)
       = fst (execute parse sp self iid params)"
  by (simp add: execute_def split: sum.splits prod.splits)

theorem execute_frame_witness:
  "execute (\<lambda>src. None) (quiet_host (Completed (pystr_of ''2'' @ [10]) [] 0))
     \<lparr>self_timeout = 5, self_state = [[97] \<mapsto> Map.empty]\<rparr> (pystr_of ''ghost'') [pystr_of ''code'' \<mapsto> pystr_of ''1 + 1'']
   = (Inr (pystr_of ''<tool_output>{\"stdout\": \"2\", \"stderr\": \"\"}</tool_output>'', 0, Map.empty), \<lparr>self_timeout = 5, self_state = [[97] \<mapsto> Map.empty]\<rparr>)
   \<and> fst (execute (\<lambda>src. None) (quiet_host (Completed (pystr_of ''2'' @ [10]) [] 0))
     \<lparr>self_timeout = 5, self_state = [[97] \<mapsto> Map.empty]\<rparr> (pystr_of ''ghost'') [pystr_of ''code'' \<mapsto> pystr_of ''1 + 1''])
     = fst (execute (\<lambda>src. None) (quiet_host (Completed (pystr_of ''2'' @ [10]) [] 0))
     \<lparr>self_timeout = 5, self_state = [[97] \<mapsto> Map.empty]\<rparr> [97] [pystr_of ''code'' \<mapsto> pystr_of ''1 + 1''])"
  using execute_frame [where parse = "\<lambda>src. None" and sp = "quiet_host (Completed (pystr_of ''2'' @ [10]) [] 0)"
          and self = "\<lparr>self_timeout = 5, self_state = [[97] \<mapsto> Map.empty]\<rparr>" and iid = "pystr_of ''ghost''"
          and params = "[pystr_of ''code'' \<mapsto> pystr_of ''1 + 1'']" and iid' = "[97]"]
  by (simp add: eval_defs)

text \<open>
  C8. \<open>release\<close> removes the record of the given id, leaves every other session's
  record and the timeout as they were, is idempotent, and on an id that is not live
  (never created, or already released) returns the tool unchanged. It is a total
  function: it has no way to raise.
\<close>

theorem release_idempotent:
  "self_state (release self iid) iid = None
   \<and> (\<forall>other. other \<noteq> iid \<longrightarrow> self_state (release self iid) other = self_state self other)
   \<and> self_timeout (release self iid) = self_timeout self
   \<and> dom (self_state (release self iid)) = dom (self_state self) - {iid}
   \<and> release (release self iid) iid = release self iid
   \<and> (self_state self iid = None \<longrightarrow> release self iid = self)"
  by (auto simp: release_def fun_upd_idem)

theorem release_idempotent_witness:
  "self_state (release \<lparr>self_timeout = 5, self_state = [[97] \<mapsto> Map.empty, [98] \<mapsto> [[107] \<mapsto> [118]]]\<rparr> [97]) [97] = None
   \<and> self_state (release \<lparr>self_timeout = 5, self_state = [[97] \<mapsto> Map.empty, [98] \<mapsto> [[107] \<mapsto> [118]]]\<rparr> [97]) [98]
       = Some [[107] \<mapsto> [118]]
   \<and> release (release \<lparr>self_timeout = 5, self_state = [[97] \<mapsto> Map.empty, [98] \<mapsto> [[107] \<mapsto> [118]]]\<rparr> [97]) [97]
       = release \<lparr>self_timeout = 5, self_state = [[97] \<mapsto> Map.empty, [98] \<mapsto> [[107] \<mapsto> [118]]]\<rparr> [97]
   \<and> release \<lparr>self_timeout = 5, self_state = [[97] \<mapsto> Map.empty, [98] \<mapsto> [[107] \<mapsto> [118]]]\<rparr> [99]
       = \<lparr>self_timeout = 5, self_state = [[97] \<mapsto> Map.empty, [98] \<mapsto> [[107] \<mapsto> [118]]]\<rparr>"
  using release_idempotent [of "\<lparr>self_timeout = 5, self_state = [[97] \<mapsto> Map.empty, [98] \<mapsto> [[107] \<mapsto> [118]]]\<rparr>" "[97]"]
        release_idempotent [of "\<lparr>self_timeout = 5, self_state = [[97] \<mapsto> Map.empty, [98] \<mapsto> [[107] \<mapsto> [118]]]\<rparr>" "[99]"]
  by simp

text \<open>
  C10, as the code has it. Given a non-empty id \<open>s\<close>, \<open>create\<close> returns \<open>s\<close> and
  registers it with an empty record, whether or not \<open>s\<close> was live: a record \<open>s\<close> had is
  replaced. Given no id, or the empty string, it returns and registers the string
  the generator gave, and does not compare it with the live ids. When that string is
  not live, the registry gains this one id and every record stays; when it is live,
  the registry keeps its ids and that session's record is replaced. In the witness
  the session \<open>a\<close> holds a binding before the call with the id \<open>a\<close> and none after.
\<close>

theorem create_registers:
  "(s \<noteq> [] \<longrightarrow>
      create uuid4 self (Some s) = (s, self\<lparr>self_state := (self_state self)(s \<mapsto> Map.empty)\<rparr>)
      \<and> self_state (snd (create uuid4 self (Some s))) s = Some Map.empty
      \<and> dom (self_state (snd (create uuid4 self (Some s)))) = insert s (dom (self_state self))
      \<and> (\<forall>other. other \<noteq> s \<longrightarrow>
            self_state (snd (create uuid4 self (Some s))) other = self_state self other))
   \<and> create uuid4 self None = (uuid4, self\<lparr>self_state := (self_state self)(uuid4 \<mapsto> Map.empty)\<rparr>)
   \<and> create uuid4 self (Some []) = (uuid4, self\<lparr>self_state := (self_state self)(uuid4 \<mapsto> Map.empty)\<rparr>)
   \<and> (uuid4 \<notin> dom (self_state self) \<longrightarrow>
        dom (self_state (snd (create uuid4 self None))) - dom (self_state self) = {uuid4}
        \<and> (\<forall>live. live \<in> dom (self_state self) \<longrightarrow>
              live \<noteq> fst (create uuid4 self None)
              \<and> self_state (snd (create uuid4 self None)) live = self_state self live))
   \<and> (uuid4 \<in> dom (self_state self) \<longrightarrow>
        dom (self_state (snd (create uuid4 self None))) = dom (self_state self)
        \<and> self_state (snd (create uuid4 self None)) uuid4 = Some Map.empty)"
  by (auto simp: create_def)

theorem create_registers_witness:
  "create [117] \<lparr>self_timeout = 5, self_state = [[97] \<mapsto> [[107] \<mapsto> [118]]]\<rparr> (Some [97])
     = ([97], \<lparr>self_timeout = 5, self_state = [[97] \<mapsto> Map.empty]\<rparr>)
   \<and> create [117] \<lparr>self_timeout = 5, self_state = [[97] \<mapsto> [[107] \<mapsto> [118]]]\<rparr> None
     = ([117], \<lparr>self_timeout = 5, self_state = [[97] \<mapsto> [[107] \<mapsto> [118]], [117] \<mapsto> Map.empty]\<rparr>)
   \<and> create [117] \<lparr>self_timeout = 5, self_state = [[97] \<mapsto> [[107] \<mapsto> [118]]]\<rparr> (Some [])
     = ([117], \<lparr>self_timeout = 5, self_state = [[97] \<mapsto> [[107] \<mapsto> [118]], [117] \<mapsto> Map.empty]\<rparr>)
   \<and> dom (self_state (snd (create [117] \<lparr>self_timeout = 5, self_state = [[97] \<mapsto> [[107] \<mapsto> [118]]]\<rparr> None)))
       - dom (self_state \<lparr>self_timeout = 5, self_state = [[97] \<mapsto> [[107] \<mapsto> [118]]]\<rparr>) = {[117]}"
  using create_registers [where s = "[97]" and ?uuid4.0 = "[117]"
          and self = "\<lparr>self_timeout = 5, self_state = [[97] \<mapsto> [[107] \<mapsto> [118]]]\<rparr>"]
  by (auto simp: create_def)

text \<open>
  C10 as stated fails when the generated string is the id of a live session (a
  caller may have passed any string as an id earlier): \<open>create\<close> returns that id a
  second time, so it is not unique among the live sessions.
\<close>

theorem create_generated_id_live:
  "self_state \<lparr>self_timeout = 5, self_state = [pystr_of ''0b5c2f0e-6a54-4c39-9d2e-1f3a7c8e4b90'' \<mapsto> Map.empty]\<rparr>
       (pystr_of ''0b5c2f0e-6a54-4c39-9d2e-1f3a7c8e4b90'')
     = Some Map.empty
   \<and> create (pystr_of ''0b5c2f0e-6a54-4c39-9d2e-1f3a7c8e4b90'')
       \<lparr>self_timeout = 5, self_state = [pystr_of ''0b5c2f0e-6a54-4c39-9d2e-1f3a7c8e4b90'' \<mapsto> Map.empty]\<rparr> None
     = (pystr_of ''0b5c2f0e-6a54-4c39-9d2e-1f3a7c8e4b90'',
        \<lparr>self_timeout = 5, self_state = [pystr_of ''0b5c2f0e-6a54-4c39-9d2e-1f3a7c8e4b90'' \<mapsto> Map.empty]\<rparr>)"
  by (simp add: create_def Let_def)

end
